theory Spec2Isabelle
  imports Complex_Main "HOL-Library.AList"
begin

section \<open>Python values, dictionaries and exceptions\<close>

text \<open>
  The processors exchange JSON payloads with the gateways. A payload value is one of the
  JSON shapes (numbers are kept as integers; no function below does arithmetic on them).
  A Python \<open>dict\<close> with string keys is an association list read with \<open>map_of\<close>
  and written with \<open>AList.update\<close>, so that every function below can be evaluated.
  Strings are Python 2 \<open>unicode\<close> strings whose code points lie below 256: one
  \<open>char\<close> is one code point.
\<close>

datatype jvalue =
    JNull
  | JBool bool
  | JNum int
  | JStr string
  | JArr "jvalue list"
  | JObj "(string \<times> jvalue) list"

type_synonym dict = "(string \<times> jvalue) list"

text \<open>Monetary amounts are Python \<open>Decimal\<close>s; they are modelled as exact rationals.\<close>

type_synonym decimal = rat

text \<open>
  Every exception class that a modelled path can raise. \<open>SDKException\<close> stands for
  any exception raised inside a call into the PayPal SDK. Exception messages are not
  modelled: callers branch on the class only.
\<close>

datatype error =
    KeyError
  | AttributeError
  | TypeError
  | ValueError
  | UnicodeEncodeError
  | UnboundLocalError
  | IndexError
  | DoesNotExist
  | MultipleObjectsReturned
  | SDKException
  | GatewayError
  | TransactionDeclined
  | MissingAdyenEventCodeException
  | UnsupportedAdyenEventException

text \<open>Truth value of a payload value in a Python condition (\<open>if x:\<close>).\<close>

fun truthy :: "jvalue \<Rightarrow> bool" where
  "truthy JNull = False"
| "truthy (JBool b) = b"
| "truthy (JNum n) = (n \<noteq> 0)"
| "truthy (JStr s) = (s \<noteq> [])"
| "truthy (JArr xs) = (xs \<noteq> [])"
| "truthy (JObj kvs) = (kvs \<noteq> [])"

text \<open>\<open>d.get(k)\<close>, \<open>d[k]\<close> on a dict, \<open>d[k] = v\<close> and \<open>d.update(e)\<close>.\<close>

definition dict_get :: "dict \<Rightarrow> string \<Rightarrow> jvalue" where
  "dict_get d k = (case map_of d k of None \<Rightarrow> JNull | Some v \<Rightarrow> v)"

definition dict_item :: "dict \<Rightarrow> string \<Rightarrow> error + jvalue" where
  "dict_item d k = (case map_of d k of None \<Rightarrow> Inl KeyError | Some v \<Rightarrow> Inr v)"

definition dict_set :: "string \<Rightarrow> jvalue \<Rightarrow> dict \<Rightarrow> dict" where
  "dict_set k v d = AList.update k v d"

definition dict_update :: "dict \<Rightarrow> dict \<Rightarrow> dict" where
  "dict_update d e = fold (\<lambda>(k, v). dict_set k v) e d"

text \<open>
  \<open>x[k]\<close> on an arbitrary decoded JSON value: only an object can be subscripted with
  a string; every other shape raises \<open>TypeError\<close>.
\<close>

fun subscript :: "jvalue \<Rightarrow> string \<Rightarrow> error + jvalue" where
  "subscript (JObj d) k = dict_item d k"
| "subscript _ k = Inl TypeError"

text \<open>
  \<open>unicode.lower()\<close> on code points below 256: the upper-case letters are A to Z and
  the Latin-1 capitals U+00C0 to U+00DE except the multiplication sign U+00D7; each maps
  to the code point 32 above it.
\<close>

definition lower_char :: "char \<Rightarrow> char" where
  "lower_char c =
     (let n = (of_char c :: nat)
      in if (65 \<le> n \<and> n \<le> 90) \<or> (192 \<le> n \<and> n \<le> 222 \<and> n \<noteq> 215)
         then char_of (n + 32) else c)"

definition lower :: "string \<Rightarrow> string" where
  "lower s = map lower_char s"

text \<open>
  \<open>x.lower()\<close> on a payload value: only strings have the method; on any other value
  the attribute lookup raises \<open>AttributeError\<close>.
\<close>

fun value_lower :: "jvalue \<Rightarrow> error + string" where
  "value_lower (JStr s) = Inr (lower s)"
| "value_lower _ = Inl AttributeError"

definition is_ascii :: "string \<Rightarrow> bool" where
  "is_ascii s = (\<forall>c \<in> set s. (of_char c :: nat) < 128)"

section \<open>Encrypted-card adapter (Adyen): shopper data builders\<close>

text \<open>
  The module-level helpers of \<open>adyen/processor.py\<close>. Their Python names start with an
  underscore, which an Isabelle name cannot; the underscore is dropped. The arguments are
  strings (the defaults are empty strings), and a string is true when it is not empty.
\<close>

definition get_shopper_name :: "string \<Rightarrow> string \<Rightarrow> dict" where
  "get_shopper_name first_name last_name =
     (if first_name \<noteq> [] \<or> last_name \<noteq> [] then
        (let name0 = [];
             name1 = (if first_name \<noteq> [] then dict_set ''firstName'' (JStr first_name) name0
                      else name0);
             name2 = (if last_name \<noteq> [] then dict_set ''lastName'' (JStr last_name) name1
                      else name1)
         in dict_set ''shopper_name'' (JObj name2) [])
      else [])"

definition get_shopper_email :: "string \<Rightarrow> dict" where
  "get_shopper_email email =
     (if email \<noteq> [] then dict_set ''shopperEmail'' (JStr email) [] else [])"

text \<open>
  \<open>s.split(' ', 1)\<close>: at most one split, at the first space. Without a space the
  result has one element.
\<close>

definition split_space_once :: "string \<Rightarrow> string list" where
  "split_space_once s =
     (if CHR '' '' \<in> set s
      then [takeWhile (\<lambda>c. c \<noteq> CHR '' '') s, tl (dropWhile (\<lambda>c. c \<noteq> CHR '' '') s)]
      else [s])"

text \<open>
  \<open>house_number, street = billing_address.split(' ', 1)\<close>: unpacking a list that does
  not have exactly two elements raises \<open>ValueError\<close>.
\<close>

fun unpack_pair :: "string list \<Rightarrow> error + (string \<times> string)" where
  "unpack_pair [a, b] = Inr (a, b)"
| "unpack_pair _ = Inl ValueError"

definition get_shopper_billing_address ::
  "string \<Rightarrow> string \<Rightarrow> string \<Rightarrow> string \<Rightarrow> string \<Rightarrow> dict" where
  "get_shopper_billing_address billing_address city state postal_code country =
     (if billing_address \<noteq> [] \<or> city \<noteq> [] \<or> state \<noteq> [] \<or> postal_code \<noteq> []
         \<or> country \<noteq> [] then
        (case (if billing_address \<noteq> [] then
                 (case unpack_pair (split_space_once billing_address) of
                    Inl e \<Rightarrow> Inl e
                  | Inr (house_number, street) \<Rightarrow>
                      Inr (dict_set ''street'' (JStr street)
                             (dict_set ''houseNumberOrName'' (JStr house_number) [])))
               else Inr []) of
           Inl e \<Rightarrow> []
         | Inr address0 \<Rightarrow>
             (let address1 = (if city \<noteq> [] then dict_set ''city'' (JStr city) address0
                              else address0);
                  address2 = (if state \<noteq> [] then
                                dict_set ''stateOrProvince'' (JStr state) address1
                              else address1);
                  address3 = (if postal_code \<noteq> [] then
                                dict_set ''postalCode'' (JStr postal_code) address2
                              else address2);
                  address4 = (if country \<noteq> [] then dict_set ''country'' (JStr country) address3
                              else address3)
              in dict_set ''billingAddress'' (JObj address4) []))
      else [])"

definition get_shopper_ip :: "string \<Rightarrow> dict" where
  "get_shopper_ip ip = (if ip \<noteq> [] then dict_set ''shopperIP'' (JStr ip) [] else [])"

definition get_shopper_data ::
  "string \<Rightarrow> string \<Rightarrow> string \<Rightarrow> string \<Rightarrow> string \<Rightarrow> string \<Rightarrow> string \<Rightarrow> string \<Rightarrow> string
     \<Rightarrow> dict" where
  "get_shopper_data first_name last_name email billing_address city state postal_code
       country ip =
     (let shopper_data0 = [];
          shopper_data1 = dict_update shopper_data0 (get_shopper_name first_name last_name);
          shopper_data2 = dict_update shopper_data1 (get_shopper_email email);
          shopper_data3 = dict_update shopper_data2
             (get_shopper_billing_address billing_address city state postal_code country);
          shopper_data4 = dict_update shopper_data3 (get_shopper_ip ip)
      in shopper_data4)"

section \<open>Ledger entities, audit log and the stored state\<close>

text \<open>
  The Django models the processors read and write. Each table is a list and a row's
  primary key is its position, so \<open>.first()\<close> (ordering by primary key) is the first
  matching position. The fields of a row are the ones the processors pass to the model
  constructors or read from the rows.
\<close>

text \<open>
  Modelled from the spec: the members of \<open>PaymentEventTypeName\<close>
  (\<open>ecommerce.extensions.order.constants\<close> is not among the source files). The
  processors use \<open>PAID\<close> and \<open>REFUNDED\<close>, the spec's "paid" and "refunded" events.
\<close>

datatype payment_event_type_name = PAID | REFUNDED

text \<open>
  Modelled from the spec: the members of \<open>REFUND\<close>
  (\<open>ecommerce.extensions.refund.status\<close> is not among the source files). The spec
  lists the refund states PENDING_WITH_REVOCATION, PENDING_WITHOUT_REVOCATION,
  PAYMENT_REFUNDED and COMPLETE; the refund factory starts a refund as \<open>OPEN\<close>.
\<close>

datatype refund_status =
    OPEN
  | PENDING_WITH_REVOCATION
  | PENDING_WITHOUT_REVOCATION
  | PAYMENT_REFUNDED
  | COMPLETE

datatype log_level = INFO | WARNING | ERROR | EXCEPTION

record basket =
  basket_id :: nat
  order_number :: string
  currency :: string
  total_incl_tax :: decimal

record order =
  number :: string
  order_basket :: nat

record source =
  source_type :: string
  source_currency :: string
  amount_allocated :: decimal
  amount_debited :: decimal
  amount_refunded :: decimal
  reference :: jvalue
  source_order :: "nat option"

record payment_event =
  event_type :: payment_event_type_name
  event_order :: "nat option"
  amount :: decimal
  event_reference :: jvalue
  processor_name :: string

record refund =
  refund_order :: nat
  status :: refund_status
  total_credit_excl_tax :: decimal
  fulfillment_revoked :: bool

record processor_response =
  response_processor :: string
  transaction_id :: jvalue
  response :: jvalue
  response_basket :: "nat option"

record store =
  source_types :: "string list"
  event_types :: "payment_event_type_name list"
  orders :: "order list"
  sources :: "source list"
  refunds :: "refund list"
  payment_events :: "payment_event list"
  processor_responses :: "processor_response list"
  log_records :: "log_level list"

text \<open>A call of \<open>logger.info\<close>, \<open>.warning\<close>, \<open>.error\<close> or \<open>.exception\<close>.\<close>

definition logger :: "log_level \<Rightarrow> store \<Rightarrow> store" where
  "logger level s = s\<lparr>log_records := log_records s @ [level]\<rparr>"

text \<open>
  Modelled from the spec: \<open>BasePaymentProcessor.record_processor_response\<close> (the base
  class is not among the source files). The spec gives it as
  \<open>record_processor_response(raw_payload, transaction_id, basket) -> AuditRecordId\<close>,
  creating one write-once audit record with the processor name, the transaction id, the
  basket reference and the raw payload. The returned id is the new row's position.
\<close>

definition record_processor_response ::
  "string \<Rightarrow> jvalue \<Rightarrow> jvalue \<Rightarrow> nat option \<Rightarrow> store \<Rightarrow> nat \<times> store" where
  "record_processor_response name payload tid bid s =
     (length (processor_responses s),
      s\<lparr>processor_responses := processor_responses s @
           [\<lparr>response_processor = name, transaction_id = tid, response = payload,
             response_basket = bid\<rparr>]\<rparr>)"

text \<open>\<open>Model.objects.get_or_create(name=...)\<close> on the two tables of type names.\<close>

definition get_or_create_source_type :: "string \<Rightarrow> store \<Rightarrow> store" where
  "get_or_create_source_type name s =
     (if name \<in> set (source_types s) then s
      else s\<lparr>source_types := source_types s @ [name]\<rparr>)"

definition get_or_create_event_type :: "payment_event_type_name \<Rightarrow> store \<Rightarrow> store" where
  "get_or_create_event_type name s =
     (if name \<in> set (event_types s) then s
      else s\<lparr>event_types := event_types s @ [name]\<rparr>)"

text \<open>\<open>PaymentEvent.objects.create(...)\<close>: one new saved row.\<close>

definition create_payment_event :: "payment_event \<Rightarrow> store \<Rightarrow> store" where
  "create_payment_event ev s = s\<lparr>payment_events := payment_events s @ [ev]\<rparr>"

text \<open>
  \<open>queryset.first()\<close> gives the first matching row or \<open>None\<close>; \<open>queryset.get(...)\<close>
  gives the only matching row, raising \<open>DoesNotExist\<close> when there is none and
  \<open>MultipleObjectsReturned\<close> when there are several.
\<close>

fun queryset_first :: "('a \<Rightarrow> bool) \<Rightarrow> 'a list \<Rightarrow> nat option" where
  "queryset_first P [] = None"
| "queryset_first P (x # xs) =
     (if P x then Some 0 else map_option Suc (queryset_first P xs))"

definition queryset_filter :: "('a \<Rightarrow> bool) \<Rightarrow> 'a list \<Rightarrow> nat list" where
  "queryset_filter P xs = filter (\<lambda>i. P (xs ! i)) [0..<length xs]"

definition queryset_get :: "('a \<Rightarrow> bool) \<Rightarrow> 'a list \<Rightarrow> error + nat" where
  "queryset_get P xs =
     (case queryset_filter P xs of
        [] \<Rightarrow> Inl DoesNotExist
      | [i] \<Rightarrow> Inr i
      | _ \<Rightarrow> Inl MultipleObjectsReturned)"

text \<open>
  Modelled from the spec: \<open>Source.refund\<close> (the payment models are not among the
  source files). The spec says the cancel/refund handler "applies the credit to the
  source", whose refunded amount is among its attributes: the credit adds to the refunded
  amount of the saved row.
\<close>

definition source_refund :: "nat \<Rightarrow> decimal \<Rightarrow> jvalue \<Rightarrow> store \<Rightarrow> store" where
  "source_refund sid amt ref s =
     s\<lparr>sources := (sources s)[sid := (sources s ! sid)
          \<lparr>amount_refunded := amount_refunded (sources s ! sid) + amt\<rparr>]\<rparr>"

text \<open>
  Modelled from the spec: \<open>Refund.set_status\<close> (the refund model is not among the
  source files). The spec says the handler "marks the refund PAYMENT_REFUNDED": the new
  status is stored in the saved row.
\<close>

definition refund_set_status :: "nat \<Rightarrow> refund_status \<Rightarrow> store \<Rightarrow> store" where
  "refund_set_status rid new_status s =
     s\<lparr>refunds := (refunds s)[rid := (refunds s ! rid)\<lparr>status := new_status\<rparr>]\<rparr>"

text \<open>
  Modelled from the spec: \<open>Refund.complete\<close> (the refund model is not among the
  source files). The spec says the handler "completes it (triggering fulfillment
  revocation if that was the pending mode)": the refund moves to COMPLETE and its
  fulfillment is revoked when the argument asks for it.
\<close>

definition refund_complete :: "nat \<Rightarrow> bool \<Rightarrow> store \<Rightarrow> store" where
  "refund_complete rid revoke_fulfillment s =
     s\<lparr>refunds := (refunds s)[rid := (refunds s ! rid)
          \<lparr>status := COMPLETE,
           fulfillment_revoked := (fulfillment_revoked (refunds s ! rid) \<or> revoke_fulfillment)\<rparr>]\<rparr>"

section \<open>Encrypted-card adapter (Adyen): response handling and credit\<close>

definition Adyen_NAME :: string where
  "Adyen_NAME = ''adyen''"

text \<open>
  What \<open>handle_processor_response\<close> returns: the authorisation handler returns an
  unsaved source and an unsaved event; the cancel-or-refund handler has no
  \<open>return\<close> statement and so returns \<open>None\<close>.
\<close>

datatype handled = Source_and_event source payment_event | Returned_None

definition Adyen_handle_authorisation ::
  "jvalue \<Rightarrow> dict \<Rightarrow> basket option \<Rightarrow> store \<Rightarrow> (error + handled) \<times> store" where
  "Adyen_handle_authorisation psp_reference resp bskt s =
     (case dict_item resp ''resultCode'' of
        Inl e \<Rightarrow> (Inl e, s)
      | Inr rc \<Rightarrow>
          (case value_lower rc of
             Inl e \<Rightarrow> (Inl e, s)
           | Inr result_code \<Rightarrow>
               if result_code \<noteq> ''authorised'' then (Inl TransactionDeclined, s)
               else
                 (let s1 = get_or_create_source_type Adyen_NAME s
                  in case bskt of
                       None \<Rightarrow> (Inl AttributeError, s1)
                     | Some b \<Rightarrow>
                         (let total = total_incl_tax b;
                              src = \<lparr>source_type = Adyen_NAME,
                                     source_currency = currency b,
                                     amount_allocated = total,
                                     amount_debited = total,
                                     amount_refunded = 0,
                                     reference = psp_reference,
                                     source_order = None\<rparr>;
                              s2 = get_or_create_event_type PAID s1;
                              event = \<lparr>event_type = PAID,
                                       event_order = None,
                                       amount = total,
                                       event_reference = psp_reference,
                                       processor_name = Adyen_NAME\<rparr>
                          in (Inr (Source_and_event src event), s2)))))"

definition pending_refund_of :: "nat \<Rightarrow> refund \<Rightarrow> bool" where
  "pending_refund_of oid r =
     (refund_order r = oid
      \<and> status r \<in> {PENDING_WITH_REVOCATION, PENDING_WITHOUT_REVOCATION})"

definition Adyen_handle_cancel_or_refund ::
  "jvalue \<Rightarrow> dict \<Rightarrow> basket option \<Rightarrow> store \<Rightarrow> (error + handled) \<times> store" where
  "Adyen_handle_cancel_or_refund psp_reference resp bskt s =
     (case bskt of
        None \<Rightarrow> (Inl AttributeError, s)
      | Some b \<Rightarrow>
          (case queryset_first (\<lambda>ord. order_basket ord = basket_id b) (orders s) of
             None \<Rightarrow> (Inl AttributeError, s)
           | Some oid \<Rightarrow>
               (let src = queryset_first (\<lambda>x. source_order x = Some oid) (sources s)
                in case queryset_get (pending_refund_of oid) (refunds s) of
                     Inl e \<Rightarrow> (Inl e, s)
                   | Inr rid \<Rightarrow>
                       (let amt = total_credit_excl_tax (refunds s ! rid)
                        in if truthy (dict_get resp ''success'') then
                             (case src of
                                None \<Rightarrow> (Inl AttributeError, s)
                              | Some sid \<Rightarrow>
                                  (let s1 = source_refund sid amt psp_reference s;
                                       revoke_fulfillment =
                                         (status (refunds s1 ! rid) = PENDING_WITH_REVOCATION);
                                       s2 = refund_set_status rid PAYMENT_REFUNDED s1;
                                       s3 = refund_complete rid revoke_fulfillment s2;
                                       s4 = get_or_create_event_type REFUNDED s3;
                                       s5 = create_payment_event
                                              \<lparr>event_type = REFUNDED,
                                               event_order = Some oid,
                                               amount = amt,
                                               event_reference = psp_reference,
                                               processor_name = Adyen_NAME\<rparr> s4
                                   in (Inr Returned_None, s5)))
                           else (Inl GatewayError, s)))))"

text \<open>
  \<open>getattr(self, name)\<close> for a name that starts with \<open>_handle_\<close>: the class defines
  two such methods. The name is a \<open>unicode\<close> string, which Python 2 encodes to ASCII
  before the lookup; a name with a code point above 127 raises \<open>UnicodeEncodeError\<close>.
\<close>

datatype handler = Handle_authorisation | Handle_cancel_or_refund

definition getattr_handler :: "string \<Rightarrow> error + handler" where
  "getattr_handler name =
     (if \<not> is_ascii name then Inl UnicodeEncodeError
      else if name = ''_handle_authorisation'' then Inr Handle_authorisation
      else if name = ''_handle_cancel_or_refund'' then Inr Handle_cancel_or_refund
      else Inl AttributeError)"

text \<open>The body of the \<open>try\<close> block of \<open>handle_processor_response\<close>.\<close>

definition Adyen_dispatch ::
  "dict \<Rightarrow> basket option \<Rightarrow> store \<Rightarrow> (error + handled) \<times> store" where
  "Adyen_dispatch resp bskt s =
     (case dict_item resp ''eventCode'' of
        Inl e \<Rightarrow> (Inl e, s)
      | Inr event_code \<Rightarrow>
          (case dict_item resp ''pspReference'' of
             Inl e \<Rightarrow> (Inl e, s)
           | Inr psp_reference \<Rightarrow>
               (case value_lower event_code of
                  Inl e \<Rightarrow> (Inl e, s)
                | Inr event \<Rightarrow>
                    (case getattr_handler (''_handle_'' @ event) of
                       Inl e \<Rightarrow> (Inl e, s)
                     | Inr Handle_authorisation \<Rightarrow>
                         Adyen_handle_authorisation psp_reference resp bskt s
                     | Inr Handle_cancel_or_refund \<Rightarrow>
                         Adyen_handle_cancel_or_refund psp_reference resp bskt s))))"

text \<open>
  The two \<open>except\<close> clauses: a \<open>KeyError\<close> or an \<open>AttributeError\<close> raised anywhere in
  the \<open>try\<close> block, the handlers included, is replaced; every other exception passes.
\<close>

definition Adyen_handle_processor_response ::
  "dict \<Rightarrow> basket option \<Rightarrow> store \<Rightarrow> (error + handled) \<times> store" where
  "Adyen_handle_processor_response resp bskt s =
     (case Adyen_dispatch resp bskt s of
        (Inl KeyError, s') \<Rightarrow> (Inl MissingAdyenEventCodeException, s')
      | (Inl AttributeError, s') \<Rightarrow> (Inl UnsupportedAdyenEventException, s')
      | r \<Rightarrow> r)"

text \<open>
  \<open>issue_credit\<close>. The HTTP exchange is outside the model: the response that
  \<open>requests.post\<close> returned is an argument. \<open>body = None\<close> is a body that is not JSON,
  for which \<open>response.json()\<close> raises \<open>ValueError\<close>. \<open>source.order\<close> is the order row
  the source points to; a source without one raises \<open>DoesNotExist\<close>.
\<close>

record http_response =
  status_code :: nat
  body :: "jvalue option"

definition order_of :: "store \<Rightarrow> source \<Rightarrow> error + order" where
  "order_of s src =
     (case source_order src of
        None \<Rightarrow> Inl DoesNotExist
      | Some oid \<Rightarrow> if oid < length (orders s) then Inr (orders s ! oid) else Inl DoesNotExist)"

definition cancelOrRefund_received :: jvalue where
  "cancelOrRefund_received = JStr ''[cancelOrRefund-received]''"

text \<open>The body of the \<open>try\<close> block of \<open>issue_credit\<close>.\<close>

definition Adyen_issue_credit_try ::
  "http_response \<Rightarrow> jvalue \<Rightarrow> order \<Rightarrow> store \<Rightarrow> (error + unit) \<times> store" where
  "Adyen_issue_credit_try http adyen_response ord s =
     (if status_code http = 200 then
        (case subscript adyen_response ''pspReference'' of
           Inl e \<Rightarrow> (Inl e, s)
         | Inr tid \<Rightarrow>
             (let s1 = snd (record_processor_response Adyen_NAME adyen_response tid
                              (Some (order_basket ord)) s)
              in case subscript adyen_response ''response'' of
                   Inl e \<Rightarrow> (Inl e, s1)
                 | Inr r \<Rightarrow>
                     if r \<noteq> cancelOrRefund_received then (Inl GatewayError, s1)
                     else (Inr (), s1)))
      else (Inl GatewayError, s))"

definition Adyen_issue_credit ::
  "http_response \<Rightarrow> source \<Rightarrow> decimal \<Rightarrow> string \<Rightarrow> store \<Rightarrow> (error + jvalue) \<times> store" where
  "Adyen_issue_credit http src amt cur s =
     (case order_of s src of
        Inl e \<Rightarrow> (Inl e, s)
      | Inr ord \<Rightarrow>
          (case body http of
             None \<Rightarrow> (Inl ValueError, s)
           | Some adyen_response \<Rightarrow>
               (case Adyen_issue_credit_try http adyen_response ord s of
                  (Inl GatewayError, s') \<Rightarrow> (Inl GatewayError, logger EXCEPTION s')
                | (Inl e, s') \<Rightarrow> (Inl e, s')
                | (Inr u, s') \<Rightarrow> (Inr (JBool False), s'))))"

section \<open>Redirect-wallet adapter (PayPal)\<close>

text \<open>
  The PayPal SDK is outside the model. What an SDK call did is an argument: it either
  raised or returned an object, whose attributes the processor then reads. The retry
  loops call the SDK once per attempt, so their argument maps the attempt number to the
  outcome of that attempt's call.
\<close>

datatype 'a outcome = Raises | Returns 'a

record link =
  rel :: string
  href :: string

record paypal_refund =
  refund_success :: bool
  refund_id :: jvalue
  refund_to_dict :: jvalue
  refund_error :: jvalue

record sale =
  sale_id :: jvalue
  sale_refund :: "paypal_refund outcome"

text \<open>
  A related resource is given by what reading its \<open>sale\<close> attribute does: the read
  raises, or it returns the attribute's value, which is \<open>None\<close> for a resource that
  is not a sale (the SDK's resources answer \<open>None\<close> for an attribute they do not
  have).
\<close>

record paypal_transaction =
  amount_currency :: string
  amount_total :: decimal
  related_resources :: "sale option outcome list"

record payment =
  payment_success :: bool
  payment_id :: jvalue
  payment_links :: "link list"
  payment_error :: jvalue
  payment_to_dict :: jvalue
  payment_transactions :: "paypal_transaction list"
  payer_email :: "string option"

text \<open>
  The processor's settings: \<open>retry_attempts\<close> is read from the configuration model in
  \<open>__init__\<close>; \<open>retry_switch\<close> is \<open>waffle.switch_is_active('PAYPAL_RETRY_ATTEMPTS')\<close>.
\<close>

record paypal_processor =
  retry_attempts :: int
  retry_switch :: bool

definition Paypal_NAME :: string where
  "Paypal_NAME = ''paypal''"

text \<open>
  The \<open>for\<close> loop of \<open>get_transaction_parameters\<close> (lines 125 to 169), over the
  attempt numbers still to run. The fifth argument is the local variable \<open>payment\<close>,
  \<open>None\<close> while it is unbound. The result \<open>Inr\<close> is the loop ending, by \<open>break\<close> or
  by running out of attempt numbers. The bare \<open>except\<close> also catches what the last
  unsuccessful attempt raises itself, logs it and raises it again.
\<close>

fun create_attempts ::
  "(int \<Rightarrow> payment outcome) \<Rightarrow> basket \<Rightarrow> int \<Rightarrow> int list \<Rightarrow> payment option \<Rightarrow> store
     \<Rightarrow> (error + payment option) \<times> store" where
  "create_attempts sdk b available_attempts [] pay s = (Inr pay, s)"
| "create_attempts sdk b available_attempts (i # rest) pay s =
     (case sdk i of
        Raises \<Rightarrow>
          if i < available_attempts
          then create_attempts sdk b available_attempts rest pay (logger WARNING s)
          else (Inl SDKException, logger EXCEPTION s)
      | Returns p \<Rightarrow>
          if payment_success p then (Inr (Some p), s)
          else if i < available_attempts
          then create_attempts sdk b available_attempts rest (Some p) (logger WARNING s)
          else
            (case subscript (payment_error p) ''debug_id'' of
               Inl e \<Rightarrow> (Inl e, logger EXCEPTION s)
             | Inr debug_id \<Rightarrow>
                 (let (entry, s1) = record_processor_response Paypal_NAME (payment_error p)
                                      debug_id (Some (basket_id b)) s;
                      s2 = logger ERROR s1
                  in (Inl GatewayError, logger EXCEPTION s2))))"

text \<open>
  \<open>get_transaction_parameters\<close> from line 121 on. The request body built before
  (lines 82 to 119) only feeds the SDK call and is not modelled.
\<close>

definition Paypal_get_transaction_parameters ::
  "paypal_processor \<Rightarrow> (int \<Rightarrow> payment outcome) \<Rightarrow> basket \<Rightarrow> store \<Rightarrow> (error + dict) \<times> store"
  where
  "Paypal_get_transaction_parameters self sdk b s =
     (let available_attempts = (if retry_switch self then retry_attempts self else 1)
      in case create_attempts sdk b available_attempts [1..available_attempts] None s of
           (Inl e, s') \<Rightarrow> (Inl e, s')
         | (Inr None, s') \<Rightarrow> (Inl UnboundLocalError, s')
         | (Inr (Some p), s') \<Rightarrow>
             (let (entry, s1) = record_processor_response Paypal_NAME (payment_to_dict p)
                                  (payment_id p) (Some (basket_id b)) s';
                  s2 = logger INFO s1
              in case find (\<lambda>l. rel l = ''approval_url'') (payment_links p) of
                   None \<Rightarrow> (Inl GatewayError, logger ERROR s2)
                 | Some l \<Rightarrow> (Inr (dict_set ''payment_page_url'' (JStr (href l)) []), s2)))"




text \<open>
  \<open>_get_payment_sale\<close>. The inner loop returns what the first readable \<open>sale\<close>
  attribute holds, be it a sale or \<open>None\<close>; a read that raises is skipped. The
  result \<open>None\<close> of \<open>related_sale\<close> is the inner loop ending without a
  \<open>return\<close>. After the last transaction the function returns \<open>None\<close>.
\<close>

fun related_sale :: "sale option outcome list \<Rightarrow> sale option option" where
  "related_sale [] = None"
| "related_sale (Raises # related) = related_sale related"
| "related_sale (Returns sl # related) = Some sl"

fun transactions_sale :: "paypal_transaction list \<Rightarrow> sale option" where
  "transactions_sale [] = None"
| "transactions_sale (t # ts) =
     (case related_sale (related_resources t) of
        Some sl \<Rightarrow> sl
      | None \<Rightarrow> transactions_sale ts)"

definition get_payment_sale :: "payment \<Rightarrow> sale option" where
  "get_payment_sale p = transactions_sale (payment_transactions p)"

text \<open>
  The body of the \<open>try\<close> block of \<open>issue_credit\<close>. The first argument is the outcome
  of \<open>paypalrestsdk.Payment.find\<close>. Without a sale the error is logged and
  \<open>sale.refund\<close> on \<open>None\<close> raises \<open>AttributeError\<close>.
\<close>

definition Paypal_issue_credit_try ::
  "payment outcome \<Rightarrow> store \<Rightarrow> (error + (sale \<times> paypal_refund)) \<times> store" where
  "Paypal_issue_credit_try found s =
     (case found of
        Raises \<Rightarrow> (Inl SDKException, s)
      | Returns p \<Rightarrow>
          (case get_payment_sale p of
             None \<Rightarrow> (Inl AttributeError, logger ERROR s)
           | Some sl \<Rightarrow>
               (case sale_refund sl of
                  Raises \<Rightarrow> (Inl SDKException, s)
                | Returns r \<Rightarrow> (Inr (sl, r), s))))"

definition Paypal_issue_credit ::
  "payment outcome \<Rightarrow> order \<Rightarrow> jvalue \<Rightarrow> decimal \<Rightarrow> string \<Rightarrow> store \<Rightarrow> (error + jvalue) \<times> store"
  where
  "Paypal_issue_credit found ord reference_number amt cur s =
     (case Paypal_issue_credit_try found s of
        (Inl e, s1) \<Rightarrow> (Inl GatewayError, logger EXCEPTION s1)
      | (Inr (sl, rf), s1) \<Rightarrow>
          if refund_success rf then
            (let (entry, s2) = record_processor_response Paypal_NAME (refund_to_dict rf)
                                 (refund_id rf) (Some (order_basket ord)) s1
             in (Inr (refund_id rf), s2))
          else
            (case subscript (refund_error rf) ''debug_id'' of
               Inl e \<Rightarrow> (Inl e, s1)
             | Inr debug_id \<Rightarrow>
                 (let (entry, s2) = record_processor_response Paypal_NAME (refund_error rf)
                                      debug_id (Some (order_basket ord)) s1
                  in (Inl GatewayError, s2))))"

section \<open>Example data\<close>

text \<open>
  A store with no rows, a basket, and a store holding one order of that basket with one
  payment source and one refund pending with revocation.
\<close>

definition empty_store :: store where
  "empty_store =
     \<lparr>source_types = [], event_types = [], orders = [], sources = [], refunds = [],
      payment_events = [], processor_responses = [], log_records = []\<rparr>"

definition example_basket :: basket where
  "example_basket =
     \<lparr>basket_id = 7, order_number = ''EDX-100'', currency = ''USD'', total_incl_tax = 25\<rparr>"

definition example_order :: order where
  "example_order = \<lparr>number = ''EDX-100'', order_basket = 7\<rparr>"

definition example_source :: source where
  "example_source =
     \<lparr>source_type = ''adyen'', source_currency = ''USD'', amount_allocated = 25,
      amount_debited = 25, amount_refunded = 0, reference = JStr ''8515'',
      source_order = Some 0\<rparr>"

definition example_refund :: refund where
  "example_refund =
     \<lparr>refund_order = 0, status = PENDING_WITH_REVOCATION, total_credit_excl_tax = 25,
      fulfillment_revoked = False\<rparr>"

definition example_store :: store where
  "example_store =
     \<lparr>source_types = [''adyen''], event_types = [PAID], orders = [example_order],
      sources = [example_source], refunds = [example_refund],
      payment_events = [], processor_responses = [], log_records = []\<rparr>"

text \<open>
  PayPal objects: a payment whose creation was unsuccessful, a created payment with an
  approval link, a successful and an unsuccessful refund, a payment whose first related
  resource is a sale with a given refund outcome, and a payment whose first related
  resource is not a sale although its second one is.
\<close>

definition example_failed_payment :: payment where
  "example_failed_payment =
     \<lparr>payment_success = False, payment_id = JNull, payment_links = [],
      payment_error = JObj [(''debug_id'', JStr ''dbg-1'')], payment_to_dict = JObj [],
      payment_transactions = [], payer_email = None\<rparr>"

definition example_created_payment :: payment where
  "example_created_payment =
     \<lparr>payment_success = True, payment_id = JStr ''PAY-3'',
      payment_links = [\<lparr>rel = ''self'', href = ''https://api.example/PAY-3''\<rparr>,
                       \<lparr>rel = ''approval_url'', href = ''https://approve.example/PAY-3''\<rparr>],
      payment_error = JNull, payment_to_dict = JObj [(''id'', JStr ''PAY-3'')],
      payment_transactions = [], payer_email = None\<rparr>"

definition example_paypal_refund :: paypal_refund where
  "example_paypal_refund =
     \<lparr>refund_success = True, refund_id = JStr ''REF-1'',
      refund_to_dict = JObj [(''id'', JStr ''REF-1'')], refund_error = JNull\<rparr>"

definition example_failed_refund :: paypal_refund where
  "example_failed_refund =
     \<lparr>refund_success = False, refund_id = JNull, refund_to_dict = JObj [],
      refund_error = JObj [(''debug_id'', JStr ''dbg-9'')]\<rparr>"

definition example_sale :: "paypal_refund \<Rightarrow> sale" where
  "example_sale rf = \<lparr>sale_id = JStr ''SALE-1'', sale_refund = Returns rf\<rparr>"

definition example_sold_payment :: "paypal_refund \<Rightarrow> payment" where
  "example_sold_payment rf =
     \<lparr>payment_success = True, payment_id = JStr ''PAY-1'', payment_links = [],
      payment_error = JNull, payment_to_dict = JObj [(''id'', JStr ''PAY-1'')],
      payment_transactions =
        [\<lparr>amount_currency = ''USD'', amount_total = 25,
          related_resources = [Returns (Some (example_sale rf))]\<rparr>],
      payer_email = Some ''buyer@example.com''\<rparr>"

definition example_unsold_payment :: "paypal_refund \<Rightarrow> payment" where
  "example_unsold_payment rf =
     \<lparr>payment_success = True, payment_id = JStr ''PAY-2'', payment_links = [],
      payment_error = JNull, payment_to_dict = JObj [(''id'', JStr ''PAY-2'')],
      payment_transactions =
        [\<lparr>amount_currency = ''USD'', amount_total = 25,
          related_resources = [Returns None, Returns (Some (example_sale rf))]\<rparr>],
      payer_email = None\<rparr>"

text \<open>An SDK whose first two create attempts are unsuccessful and whose third succeeds.\<close>

definition example_third_attempt_creates :: "int \<Rightarrow> payment outcome" where
  "example_third_attempt_creates i =
     (if i = 3 then Returns example_created_payment else Returns example_failed_payment)"

text \<open>Adyen responses to a cancel-or-refund request: acknowledged, and a server error.\<close>

definition example_acknowledged :: http_response where
  "example_acknowledged =
     \<lparr>status_code = 200,
      body = Some (JObj [(''pspReference'', JStr ''8616''),
                         (''response'', JStr ''[cancelOrRefund-received]'')])\<rparr>"

definition example_server_error :: http_response where
  "example_server_error =
     \<lparr>status_code = 500, body = Some (JObj [(''status'', JNum 500)])\<rparr>"

section \<open>Properties of the shopper data builders\<close>

lemma split_space_once_no_space:
  "CHR '' '' \<notin> set s \<Longrightarrow> split_space_once s = [s]"
  by (simp add: split_space_once_def)

text \<open>
  Claim C10, as stated: whenever \<open>billing_address\<close> contains no space, the billing-address
  builder returns the empty mapping, whatever the other fields are. The empty string
  contains no space, but the builder only splits a non-empty \<open>billing_address\<close>: with an
  empty one and a city it returns a billing block holding the city.
\<close>

theorem C10_empty_address_counterexample:
  "CHR '' '' \<notin> set ''''
     \<and> get_shopper_billing_address '''' ''Boston'' '''' '''' ''''
         = [(''billingAddress'', JObj [(''city'', JStr ''Boston'')])]
     \<and> get_shopper_billing_address '''' ''Boston'' '''' '''' '''' \<noteq> []"
  by (simp add: get_shopper_billing_address_def dict_set_def)

text \<open>
  Claim C10, amended: for every non-empty \<open>billing_address\<close> that contains no space, the
  billing-address builder returns the empty mapping, whatever city, state, postal code and
  country are.
\<close>

theorem C10_unsplittable_address_gives_empty:
  assumes "billing_address \<noteq> []" and "CHR '' '' \<notin> set billing_address"
  shows "get_shopper_billing_address billing_address city state postal_code country = []"
  using assms
  by (simp add: get_shopper_billing_address_def split_space_once_no_space)

theorem C10_unsplittable_address_gives_empty_witness:
  "''123'' \<noteq> [] \<and> CHR '' '' \<notin> set ''123''
     \<and> get_shopper_billing_address ''123'' ''Boston'' ''MA'' ''02139'' ''US'' = []"
  using C10_unsplittable_address_gives_empty [of "''123''" "''Boston''" "''MA''" "''02139''" "''US''"]
  by simp

section \<open>Encrypted-card adapter: event dispatch\<close>

lemma getattr_handler_authorisation:
  "getattr_handler ''_handle_authorisation'' = Inr Handle_authorisation"
  by (simp add: getattr_handler_def is_ascii_def)

lemma getattr_handler_cancel_or_refund:
  "getattr_handler ''_handle_cancel_or_refund'' = Inr Handle_cancel_or_refund"
  by (simp add: getattr_handler_def is_ascii_def)

lemma getattr_handler_unregistered:
  assumes "is_ascii event" and "event \<noteq> ''authorisation''"
    and "event \<noteq> ''cancel_or_refund''"
  shows "getattr_handler (''_handle_'' @ event) = Inl AttributeError"
  using assms by (simp add: getattr_handler_def is_ascii_def)

lemma Adyen_dispatch_missing_event_code:
  assumes "map_of resp ''eventCode'' = None"
  shows "Adyen_dispatch resp bskt s = (Inl KeyError, s)"
  using assms by (simp add: Adyen_dispatch_def dict_item_def)

lemma Adyen_dispatch_unregistered:
  assumes "map_of resp ''eventCode'' = Some (JStr event_code)"
    and "map_of resp ''pspReference'' = Some psp_reference"
    and "is_ascii (lower event_code)"
    and "lower event_code \<noteq> ''authorisation''"
    and "lower event_code \<noteq> ''cancel_or_refund''"
  shows "Adyen_dispatch resp bskt s = (Inl AttributeError, s)"
proof -
  have "getattr_handler (''_handle_'' @ lower event_code) = Inl AttributeError"
    using assms(3-5) by (rule getattr_handler_unregistered)
  then show ?thesis
    using assms(1,2) by (simp add: Adyen_dispatch_def dict_item_def)
qed

lemma Adyen_dispatch_authorisation:
  assumes "map_of resp ''eventCode'' = Some (JStr event_code)"
    and "lower event_code = ''authorisation''"
    and "map_of resp ''pspReference'' = Some psp_reference"
  shows "Adyen_dispatch resp bskt s = Adyen_handle_authorisation psp_reference resp bskt s"
  using assms getattr_handler_authorisation
  by (simp add: Adyen_dispatch_def dict_item_def)

lemma Adyen_dispatch_cancel_or_refund:
  assumes "map_of resp ''eventCode'' = Some (JStr event_code)"
    and "lower event_code = ''cancel_or_refund''"
    and "map_of resp ''pspReference'' = Some psp_reference"
  shows "Adyen_dispatch resp bskt s = Adyen_handle_cancel_or_refund psp_reference resp bskt s"
  using assms getattr_handler_cancel_or_refund
  by (simp add: Adyen_dispatch_def dict_item_def)

lemma lower_AUTHORISATION: "lower ''AUTHORISATION'' = ''authorisation''"
  by code_simp

lemma lower_Authorised: "lower ''Authorised'' = ''authorised''"
  by code_simp

lemma lower_Refused: "lower ''Refused'' \<noteq> ''authorised''"
  by code_simp

text \<open>
  Claim C1: an authorisation response (event code \<open>authorisation\<close> in any case, with a
  \<open>pspReference\<close>) whose \<open>resultCode\<close> lower-cases to \<open>authorised\<close> makes
  \<open>handle_processor_response\<close> return a source allocated and debited at the basket's
  \<open>total_incl_tax\<close> with the \<open>pspReference\<close> as reference, and a PAID event with the
  same amount and reference. Both are returned unsaved; the store only gains the two
  type names.
\<close>

theorem C1_authorised_returns_source_and_paid_event:
  assumes "map_of resp ''eventCode'' = Some (JStr event_code)"
    and "lower event_code = ''authorisation''"
    and "map_of resp ''pspReference'' = Some psp_reference"
    and "map_of resp ''resultCode'' = Some (JStr result_code)"
    and "lower result_code = ''authorised''"
  shows "Adyen_handle_processor_response resp (Some b) s =
           (Inr (Source_and_event
                   \<lparr>source_type = Adyen_NAME, source_currency = currency b,
                    amount_allocated = total_incl_tax b, amount_debited = total_incl_tax b,
                    amount_refunded = 0, reference = psp_reference, source_order = None\<rparr>
                   \<lparr>event_type = PAID, event_order = None, amount = total_incl_tax b,
                    event_reference = psp_reference, processor_name = Adyen_NAME\<rparr>),
            get_or_create_event_type PAID (get_or_create_source_type Adyen_NAME s))"
proof -
  have "Adyen_dispatch resp (Some b) s
          = Adyen_handle_authorisation psp_reference resp (Some b) s"
    using assms(1-3) by (rule Adyen_dispatch_authorisation)
  moreover have "Adyen_handle_authorisation psp_reference resp (Some b) s =
           (Inr (Source_and_event
                   \<lparr>source_type = Adyen_NAME, source_currency = currency b,
                    amount_allocated = total_incl_tax b, amount_debited = total_incl_tax b,
                    amount_refunded = 0, reference = psp_reference, source_order = None\<rparr>
                   \<lparr>event_type = PAID, event_order = None, amount = total_incl_tax b,
                    event_reference = psp_reference, processor_name = Adyen_NAME\<rparr>),
            get_or_create_event_type PAID (get_or_create_source_type Adyen_NAME s))"
    using assms(4,5) by (simp add: Adyen_handle_authorisation_def dict_item_def Let_def)
  ultimately show ?thesis
    by (simp add: Adyen_handle_processor_response_def)
qed

theorem C1_authorised_returns_source_and_paid_event_witness:
  "map_of [(''eventCode'', JStr ''AUTHORISATION''), (''pspReference'', JStr ''8515''),
           (''resultCode'', JStr ''Authorised'')] ''eventCode'' = Some (JStr ''AUTHORISATION'')
   \<and> lower ''AUTHORISATION'' = ''authorisation''
   \<and> lower ''Authorised'' = ''authorised''
   \<and> Adyen_handle_processor_response
         [(''eventCode'', JStr ''AUTHORISATION''), (''pspReference'', JStr ''8515''),
          (''resultCode'', JStr ''Authorised'')] (Some example_basket) empty_store =
       (Inr (Source_and_event
               \<lparr>source_type = ''adyen'', source_currency = ''USD'',
                amount_allocated = 25, amount_debited = 25,
                amount_refunded = 0, reference = JStr ''8515'', source_order = None\<rparr>
               \<lparr>event_type = PAID, event_order = None, amount = 25,
                event_reference = JStr ''8515'', processor_name = ''adyen''\<rparr>),
        empty_store\<lparr>source_types := [''adyen''], event_types := [PAID]\<rparr>)"
  using C1_authorised_returns_source_and_paid_event
          [of "[(''eventCode'', JStr ''AUTHORISATION''), (''pspReference'', JStr ''8515''),
                (''resultCode'', JStr ''Authorised'')]"
              "''AUTHORISATION''" "JStr ''8515''" "''Authorised''" example_basket empty_store]
        lower_AUTHORISATION lower_Authorised
  by (simp add: example_basket_def empty_store_def Adyen_NAME_def
        get_or_create_event_type_def get_or_create_source_type_def)

text \<open>
  Claim C5: an authorisation response (event code \<open>authorisation\<close> in any case, with a
  \<open>pspReference\<close>) whose \<open>resultCode\<close> is a string that does not lower-case to
  \<open>authorised\<close> makes \<open>handle_processor_response\<close> raise \<open>TransactionDeclined\<close>, and
  the store is the one before the call: no source, no event, no other row is created.
\<close>

theorem C5_not_authorised_is_declined_without_mutation:
  assumes "map_of resp ''eventCode'' = Some (JStr event_code)"
    and "lower event_code = ''authorisation''"
    and "map_of resp ''pspReference'' = Some psp_reference"
    and "map_of resp ''resultCode'' = Some (JStr result_code)"
    and "lower result_code \<noteq> ''authorised''"
  shows "Adyen_handle_processor_response resp bskt s = (Inl TransactionDeclined, s)"
proof -
  have "Adyen_dispatch resp bskt s = Adyen_handle_authorisation psp_reference resp bskt s"
    using assms(1-3) by (rule Adyen_dispatch_authorisation)
  moreover have "Adyen_handle_authorisation psp_reference resp bskt s
                   = (Inl TransactionDeclined, s)"
    using assms(4,5) by (simp add: Adyen_handle_authorisation_def dict_item_def)
  ultimately show ?thesis
    by (simp add: Adyen_handle_processor_response_def)
qed

theorem C5_not_authorised_is_declined_without_mutation_witness:
  "map_of [(''eventCode'', JStr ''AUTHORISATION''), (''pspReference'', JStr ''8515''),
           (''resultCode'', JStr ''Refused'')] ''resultCode'' = Some (JStr ''Refused'')
   \<and> lower ''AUTHORISATION'' = ''authorisation''
   \<and> lower ''Refused'' \<noteq> ''authorised''
   \<and> Adyen_handle_processor_response
         [(''eventCode'', JStr ''AUTHORISATION''), (''pspReference'', JStr ''8515''),
          (''resultCode'', JStr ''Refused'')] (Some example_basket) empty_store
       = (Inl TransactionDeclined, empty_store)"
  using C5_not_authorised_is_declined_without_mutation
          [of "[(''eventCode'', JStr ''AUTHORISATION''), (''pspReference'', JStr ''8515''),
                (''resultCode'', JStr ''Refused'')]"
              "''AUTHORISATION''" "JStr ''8515''" "''Refused''" "Some example_basket"
              empty_store]
        lower_AUTHORISATION lower_Refused
  by simp

text \<open>
  Claim C6, as stated: every response whose event code is present but names no handler
  raises \<open>UnsupportedAdyenEventException\<close>. The response \<open>{'eventCode': 'FOO'}\<close> has an
  event code without a handler, yet the lookup of \<open>pspReference\<close>, which comes before the
  handler lookup, raises \<open>KeyError\<close> and the call raises
  \<open>MissingAdyenEventCodeException\<close>.
\<close>

theorem C6_unregistered_without_reference_counterexample:
  "map_of [(''eventCode'', JStr ''FOO'')] ''eventCode'' = Some (JStr ''FOO'')
   \<and> getattr_handler (''_handle_'' @ lower ''FOO'') = Inl AttributeError
   \<and> fst (Adyen_handle_processor_response [(''eventCode'', JStr ''FOO'')]
             (Some example_basket) empty_store)
       = Inl MissingAdyenEventCodeException
   \<and> fst (Adyen_handle_processor_response [(''eventCode'', JStr ''FOO'')]
             (Some example_basket) empty_store)
       \<noteq> Inl UnsupportedAdyenEventException"
  by code_simp

text \<open>
  Claim C6, amended: a response without the \<open>eventCode\<close> key raises
  \<open>MissingAdyenEventCodeException\<close>; a response that has a \<open>pspReference\<close> and whose
  event code is a string that, lower-cased, is ASCII and names neither of the two
  handlers raises \<open>UnsupportedAdyenEventException\<close>. The store is unchanged in both
  cases.
\<close>

theorem C6_missing_and_unsupported_event_codes:
  "(map_of resp ''eventCode'' = None \<longrightarrow>
      Adyen_handle_processor_response resp bskt s = (Inl MissingAdyenEventCodeException, s))
   \<and> (map_of resp ''eventCode'' = Some (JStr event_code)
        \<and> map_of resp ''pspReference'' = Some psp_reference
        \<and> is_ascii (lower event_code)
        \<and> lower event_code \<noteq> ''authorisation''
        \<and> lower event_code \<noteq> ''cancel_or_refund'' \<longrightarrow>
      Adyen_handle_processor_response resp bskt s
        = (Inl UnsupportedAdyenEventException, s))"
  by (simp add: Adyen_handle_processor_response_def Adyen_dispatch_missing_event_code
        Adyen_dispatch_unregistered)

lemma lower_REPORT_AVAILABLE:
  "lower ''REPORT_AVAILABLE'' = ''report_available''"
  by code_simp

lemma is_ascii_report_available: "is_ascii ''report_available''"
  by (simp add: is_ascii_def)

theorem C6_missing_and_unsupported_event_codes_witness:
  "map_of [(''pspReference'', JStr ''8515'')] ''eventCode'' = None
   \<and> Adyen_handle_processor_response [(''pspReference'', JStr ''8515'')]
         (Some example_basket) empty_store
       = (Inl MissingAdyenEventCodeException, empty_store)
   \<and> is_ascii (lower ''REPORT_AVAILABLE'')
   \<and> lower ''REPORT_AVAILABLE'' \<noteq> ''authorisation''
   \<and> lower ''REPORT_AVAILABLE'' \<noteq> ''cancel_or_refund''
   \<and> Adyen_handle_processor_response
         [(''eventCode'', JStr ''REPORT_AVAILABLE''), (''pspReference'', JStr ''8515'')]
         (Some example_basket) empty_store
       = (Inl UnsupportedAdyenEventException, empty_store)"
  using C6_missing_and_unsupported_event_codes
          [of "[(''pspReference'', JStr ''8515'')]" "Some example_basket" empty_store
              "''REPORT_AVAILABLE''" "JStr ''8515''"]
        C6_missing_and_unsupported_event_codes
          [of "[(''eventCode'', JStr ''REPORT_AVAILABLE''), (''pspReference'', JStr ''8515'')]"
              "Some example_basket" empty_store "''REPORT_AVAILABLE''" "JStr ''8515''"]
        lower_REPORT_AVAILABLE is_ascii_report_available
  by simp

section \<open>Encrypted-card adapter: cancel-or-refund notifications\<close>

lemma queryset_first_Some:
  "queryset_first P xs = Some i \<Longrightarrow> i < length xs \<and> P (xs ! i)"
proof (induction xs arbitrary: i)
  case Nil
  then show ?case by simp
next
  case (Cons x xs)
  then show ?case by (auto split: if_splits)
qed

lemma queryset_get_Inr:
  assumes "queryset_get P xs = Inr i"
  shows "i < length xs \<and> P (xs ! i)"
proof -
  from assms have "queryset_filter P xs = [i]"
    by (auto simp: queryset_get_def split: list.splits)
  then have "i \<in> set (filter (\<lambda>i. P (xs ! i)) [0..<length xs])"
    by (simp add: queryset_filter_def)
  then show ?thesis by simp
qed

lemma refunds_source_refund [simp]: "refunds (source_refund sid amt ref s) = refunds s"
  by (simp add: source_refund_def)

lemma get_or_create_event_type_fields:
  "sources (get_or_create_event_type n s) = sources s"
  "refunds (get_or_create_event_type n s) = refunds s"
  "payment_events (get_or_create_event_type n s) = payment_events s"
  "processor_responses (get_or_create_event_type n s) = processor_responses s"
  by (simp_all add: get_or_create_event_type_def)

lemma lower_CANCEL_OR_REFUND: "lower ''CANCEL_OR_REFUND'' = ''cancel_or_refund''"
  by code_simp

text \<open>
  What the handler does is decided by the truth value of \<open>response.get('success')\<close>.
  The two lemmas are for a notification (event code \<open>cancel_or_refund\<close> in any case,
  with a \<open>pspReference\<close>) for a basket whose first order has a first payment source
  and the one pending refund that \<open>order.refunds.get(status__in=[...])\<close> locates.
\<close>

lemma Adyen_cancel_or_refund_when_true:
  assumes "map_of resp ''eventCode'' = Some (JStr event_code)"
    and "lower event_code = ''cancel_or_refund''"
    and "map_of resp ''pspReference'' = Some psp_reference"
    and "queryset_first (\<lambda>ord. order_basket ord = basket_id b) (orders s) = Some oid"
    and "queryset_first (\<lambda>x. source_order x = Some oid) (sources s) = Some sid"
    and "queryset_get (pending_refund_of oid) (refunds s) = Inr rid"
    and "truthy (dict_get resp ''success'')"
  shows "Adyen_handle_processor_response resp (Some b) s =
           (Inr Returned_None,
            create_payment_event
              \<lparr>event_type = REFUNDED, event_order = Some oid,
               amount = total_credit_excl_tax (refunds s ! rid),
               event_reference = psp_reference, processor_name = Adyen_NAME\<rparr>
              (get_or_create_event_type REFUNDED
                (refund_complete rid (status (refunds s ! rid) = PENDING_WITH_REVOCATION)
                  (refund_set_status rid PAYMENT_REFUNDED
                    (source_refund sid (total_credit_excl_tax (refunds s ! rid))
                       psp_reference s)))))"
proof -
  have "Adyen_dispatch resp (Some b) s
          = Adyen_handle_cancel_or_refund psp_reference resp (Some b) s"
    using assms(1-3) by (rule Adyen_dispatch_cancel_or_refund)
  then show ?thesis
    using assms(4-7)
    by (simp add: Adyen_handle_processor_response_def Adyen_handle_cancel_or_refund_def Let_def)
qed

lemma Adyen_cancel_or_refund_when_not_true:
  assumes "map_of resp ''eventCode'' = Some (JStr event_code)"
    and "lower event_code = ''cancel_or_refund''"
    and "map_of resp ''pspReference'' = Some psp_reference"
    and "queryset_first (\<lambda>ord. order_basket ord = basket_id b) (orders s) = Some oid"
    and "queryset_get (pending_refund_of oid) (refunds s) = Inr rid"
    and "\<not> truthy (dict_get resp ''success'')"
  shows "Adyen_handle_processor_response resp (Some b) s = (Inl GatewayError, s)"
proof -
  have "Adyen_dispatch resp (Some b) s
          = Adyen_handle_cancel_or_refund psp_reference resp (Some b) s"
    using assms(1-3) by (rule Adyen_dispatch_cancel_or_refund)
  then show ?thesis
    using assms(4-6)
    by (simp add: Adyen_handle_processor_response_def Adyen_handle_cancel_or_refund_def Let_def)
qed

lemma example_store_rows:
  "queryset_first (\<lambda>ord. order_basket ord = basket_id example_basket) (orders example_store)
     = Some 0"
  "queryset_first (\<lambda>x. source_order x = Some 0) (sources example_store) = Some 0"
  "queryset_get (pending_refund_of 0) (refunds example_store) = Inr 0"
  by (simp_all add: example_store_def example_basket_def example_order_def
        example_source_def example_refund_def queryset_get_def queryset_filter_def
        pending_refund_of_def)

text \<open>
  Claim C7 says that a notification reporting failure raises \<open>GatewayError\<close> and leaves
  the source, the refund and the events unchanged. Adyen reports the outcome in the
  field \<open>success\<close> as the string \<open>true\<close> or \<open>false\<close>, and the handler tests the
  truth value of that field, which is true for every non-empty string. The notification
  below reports failure with \<open>'success': 'false'\<close> for the example order, whose refund
  of 25 is pending with revocation. The handler takes the success branch: it returns
  normally, credits 25 to the source, sets the refund to PAYMENT_REFUNDED (the second
  conjunct shows the store after that step), completes it with revocation and creates a
  REFUNDED event.
\<close>

theorem C7_reported_failure_is_refunded:
  "truthy (dict_get [(''eventCode'', JStr ''CANCEL_OR_REFUND''),
                     (''pspReference'', JStr ''8616''), (''success'', JStr ''false'')]
            ''success'')
   \<and> refunds (refund_set_status 0 PAYMENT_REFUNDED
                (source_refund 0 25 (JStr ''8616'') example_store))
       = [example_refund\<lparr>status := PAYMENT_REFUNDED\<rparr>]
   \<and> Adyen_handle_processor_response
        [(''eventCode'', JStr ''CANCEL_OR_REFUND''), (''pspReference'', JStr ''8616''),
         (''success'', JStr ''false'')] (Some example_basket) example_store
      = (Inr Returned_None,
         create_payment_event
           \<lparr>event_type = REFUNDED, event_order = Some 0, amount = 25,
            event_reference = JStr ''8616'', processor_name = Adyen_NAME\<rparr>
           (get_or_create_event_type REFUNDED
             (refund_complete 0 True
               (refund_set_status 0 PAYMENT_REFUNDED
                 (source_refund 0 25 (JStr ''8616'') example_store)))))
   \<and> Adyen_handle_processor_response
        [(''eventCode'', JStr ''CANCEL_OR_REFUND''), (''pspReference'', JStr ''8616''),
         (''success'', JStr ''false'')] (Some example_basket) example_store
      = (Inr Returned_None,
         example_store
           \<lparr>event_types := [PAID, REFUNDED],
            sources := [example_source\<lparr>amount_refunded := 25\<rparr>],
            refunds := [example_refund\<lparr>status := COMPLETE, fulfillment_revoked := True\<rparr>],
            payment_events := [\<lparr>event_type = REFUNDED, event_order = Some 0, amount = 25,
                                event_reference = JStr ''8616'', processor_name = ''adyen''\<rparr>]\<rparr>)
   \<and> fst (Adyen_handle_processor_response
             [(''eventCode'', JStr ''CANCEL_OR_REFUND''), (''pspReference'', JStr ''8616''),
              (''success'', JStr ''false'')] (Some example_basket) example_store)
       \<noteq> Inl GatewayError"
proof -
  have tr: "truthy (dict_get [(''eventCode'', JStr ''CANCEL_OR_REFUND''),
                     (''pspReference'', JStr ''8616''), (''success'', JStr ''false'')]
            ''success'')"
    by (simp add: dict_get_def)
  have mid: "refunds (refund_set_status 0 PAYMENT_REFUNDED
                (source_refund 0 25 (JStr ''8616'') example_store))
       = [example_refund\<lparr>status := PAYMENT_REFUNDED\<rparr>]"
    by (simp add: refund_set_status_def source_refund_def example_store_def)
  have amt: "total_credit_excl_tax (refunds example_store ! 0) = 25"
    and st: "status (refunds example_store ! 0) = PENDING_WITH_REVOCATION"
    by (simp_all add: example_store_def example_refund_def)
  have run: "Adyen_handle_processor_response
        [(''eventCode'', JStr ''CANCEL_OR_REFUND''), (''pspReference'', JStr ''8616''),
         (''success'', JStr ''false'')] (Some example_basket) example_store
      = (Inr Returned_None,
         create_payment_event
           \<lparr>event_type = REFUNDED, event_order = Some 0, amount = 25,
            event_reference = JStr ''8616'', processor_name = Adyen_NAME\<rparr>
           (get_or_create_event_type REFUNDED
             (refund_complete 0 True
               (refund_set_status 0 PAYMENT_REFUNDED
                 (source_refund 0 25 (JStr ''8616'') example_store)))))"
    using Adyen_cancel_or_refund_when_true
            [of "[(''eventCode'', JStr ''CANCEL_OR_REFUND''),
                  (''pspReference'', JStr ''8616''), (''success'', JStr ''false'')]"
                "''CANCEL_OR_REFUND''" "JStr ''8616''" example_basket example_store 0 0 0,
             OF _ lower_CANCEL_OR_REFUND _ example_store_rows tr]
          amt st
    by simp
  have final: "create_payment_event
           \<lparr>event_type = REFUNDED, event_order = Some 0, amount = 25,
            event_reference = JStr ''8616'', processor_name = Adyen_NAME\<rparr>
           (get_or_create_event_type REFUNDED
             (refund_complete 0 True
               (refund_set_status 0 PAYMENT_REFUNDED
                 (source_refund 0 25 (JStr ''8616'') example_store))))
      = example_store
           \<lparr>event_types := [PAID, REFUNDED],
            sources := [example_source\<lparr>amount_refunded := 25\<rparr>],
            refunds := [example_refund\<lparr>status := COMPLETE, fulfillment_revoked := True\<rparr>],
            payment_events := [\<lparr>event_type = REFUNDED, event_order = Some 0, amount = 25,
                                event_reference = JStr ''8616'', processor_name = ''adyen''\<rparr>]\<rparr>"
    by (simp add: create_payment_event_def get_or_create_event_type_def refund_complete_def
          refund_set_status_def source_refund_def example_store_def example_refund_def
          example_source_def Adyen_NAME_def)
  show ?thesis
    using tr mid run final by simp
qed

section \<open>Encrypted-card adapter: credit issuance\<close>

lemma processor_responses_logger [simp]:
  "processor_responses (logger level s) = processor_responses s"
  by (simp add: logger_def)

lemma processor_responses_record:
  "processor_responses (snd (record_processor_response name payload tid bid s))
     = processor_responses s @
         [\<lparr>response_processor = name, transaction_id = tid, response = payload,
           response_basket = bid\<rparr>]"
  by (simp add: record_processor_response_def)

lemma Adyen_issue_credit_not_ok:
  assumes "order_of s src = Inr ord" and "body http = Some adyen_response"
    and "status_code http \<noteq> 200"
  shows "Adyen_issue_credit http src amt cur s = (Inl GatewayError, logger EXCEPTION s)"
  using assms by (simp add: Adyen_issue_credit_def Adyen_issue_credit_try_def)

lemma Adyen_issue_credit_not_acknowledged:
  assumes "order_of s src = Inr ord" and "body http = Some adyen_response"
    and "status_code http = 200"
    and "subscript adyen_response ''pspReference'' = Inr tid"
    and "subscript adyen_response ''response'' = Inr r"
    and "r \<noteq> cancelOrRefund_received"
  shows "Adyen_issue_credit http src amt cur s =
           (Inl GatewayError,
            logger EXCEPTION
              (snd (record_processor_response Adyen_NAME adyen_response tid
                      (Some (order_basket ord)) s)))"
  using assms by (simp add: Adyen_issue_credit_def Adyen_issue_credit_try_def Let_def)

lemma Adyen_issue_credit_acknowledged:
  assumes "order_of s src = Inr ord" and "body http = Some adyen_response"
    and "status_code http = 200"
    and "subscript adyen_response ''pspReference'' = Inr tid"
    and "subscript adyen_response ''response'' = Inr cancelOrRefund_received"
  shows "Adyen_issue_credit http src amt cur s =
           (Inr (JBool False),
            snd (record_processor_response Adyen_NAME adyen_response tid
                   (Some (order_basket ord)) s))"
  using assms by (simp add: Adyen_issue_credit_def Adyen_issue_credit_try_def Let_def)

text \<open>
  Claim C8, as stated: every non-OK status raises \<open>GatewayError\<close> after recording the
  raw response to the audit log. With status 500 the call raises \<open>GatewayError\<close> and
  the audit log stays empty: \<open>record_processor_response\<close> is only called in the branch
  of the OK status.
\<close>

theorem C8_not_ok_status_counterexample:
  "status_code \<lparr>status_code = 500, body = Some (JObj [(''status'', JNum 500)])\<rparr> \<noteq> 200
   \<and> Adyen_issue_credit \<lparr>status_code = 500, body = Some (JObj [(''status'', JNum 500)])\<rparr>
        example_source 25 ''USD'' example_store
      = (Inl GatewayError, example_store\<lparr>log_records := [EXCEPTION]\<rparr>)
   \<and> processor_responses
        (snd (Adyen_issue_credit
                \<lparr>status_code = 500, body = Some (JObj [(''status'', JNum 500)])\<rparr>
                example_source 25 ''USD'' example_store)) = []"
  by (simp add: Adyen_issue_credit_def Adyen_issue_credit_try_def order_of_def
        example_source_def example_store_def logger_def)

text \<open>
  Claim C8, amended: for an encrypted-card \<open>issue_credit\<close> call whose source has an
  order and whose response body is JSON, an OK status with a body that has a
  \<open>pspReference\<close> and a \<open>response\<close> field other than the acknowledgement string
  raises \<open>GatewayError\<close> after the raw response has been recorded to the audit log; a
  non-OK status raises \<open>GatewayError\<close> and leaves the audit log as it was.
\<close>

theorem C8_issue_credit_gateway_errors:
  assumes "order_of s src = Inr ord" and "body http = Some adyen_response"
  shows "(status_code http = 200
          \<and> subscript adyen_response ''pspReference'' = Inr tid
          \<and> subscript adyen_response ''response'' = Inr r
          \<and> r \<noteq> cancelOrRefund_received \<longrightarrow>
            Adyen_issue_credit http src amt cur s =
              (Inl GatewayError,
               logger EXCEPTION
                 (snd (record_processor_response Adyen_NAME adyen_response tid
                         (Some (order_basket ord)) s)))
            \<and> processor_responses (snd (Adyen_issue_credit http src amt cur s)) =
                processor_responses s @
                  [\<lparr>response_processor = Adyen_NAME, transaction_id = tid,
                    response = adyen_response,
                    response_basket = Some (order_basket ord)\<rparr>])
         \<and> (status_code http \<noteq> 200 \<longrightarrow>
            Adyen_issue_credit http src amt cur s = (Inl GatewayError, logger EXCEPTION s)
            \<and> processor_responses (snd (Adyen_issue_credit http src amt cur s)) =
                processor_responses s)"
  using assms
  by (simp add: Adyen_issue_credit_not_ok Adyen_issue_credit_not_acknowledged
        processor_responses_record)

lemma order_of_example: "order_of example_store example_source = Inr example_order"
  by (simp add: order_of_def example_store_def example_source_def)

theorem C8_issue_credit_gateway_errors_witness:
  "order_of example_store example_source = Inr example_order
   \<and> JStr ''[refused]'' \<noteq> cancelOrRefund_received
   \<and> Adyen_issue_credit
        \<lparr>status_code = 200,
         body = Some (JObj [(''pspReference'', JStr ''8616''),
                            (''response'', JStr ''[refused]'')])\<rparr>
        example_source 25 ''USD'' example_store
      = (Inl GatewayError,
         example_store
           \<lparr>processor_responses :=
              [\<lparr>response_processor = ''adyen'', transaction_id = JStr ''8616'',
                response = JObj [(''pspReference'', JStr ''8616''),
                                 (''response'', JStr ''[refused]'')],
                response_basket = Some 7\<rparr>],
            log_records := [EXCEPTION]\<rparr>)
   \<and> Adyen_issue_credit
        \<lparr>status_code = 500, body = Some (JObj [(''status'', JNum 500)])\<rparr>
        example_source 25 ''USD'' example_store
      = (Inl GatewayError, example_store\<lparr>log_records := [EXCEPTION]\<rparr>)"
proof -
  have ne: "JStr ''[refused]'' \<noteq> cancelOrRefund_received"
    by (simp add: cancelOrRefund_received_def)
  note a = C8_issue_credit_gateway_errors [OF order_of_example,
               of "\<lparr>status_code = 200,
                    body = Some (JObj [(''pspReference'', JStr ''8616''),
                                       (''response'', JStr ''[refused]'')])\<rparr>"
                  "JObj [(''pspReference'', JStr ''8616''), (''response'', JStr ''[refused]'')]"
                  "JStr ''8616''" "JStr ''[refused]''" 25 "''USD''"]
  note b = C8_issue_credit_gateway_errors [OF order_of_example,
               of "\<lparr>status_code = 500, body = Some (JObj [(''status'', JNum 500)])\<rparr>"
                  "JObj [(''status'', JNum 500)]" "JStr ''8616''" "JStr ''[refused]''"
                  25 "''USD''"]
  show ?thesis
    using a b ne order_of_example
    by (simp add: dict_item_def record_processor_response_def logger_def Adyen_NAME_def
          example_store_def example_order_def)
qed

section \<open>Credit issuance of both adapters\<close>

lemma Paypal_issue_credit_success:
  assumes "found = Returns p" and "get_payment_sale p = Some sl"
    and "sale_refund sl = Returns rf" and "refund_success rf"
  shows "Paypal_issue_credit found ord reference_number amt cur s =
           (Inr (refund_id rf),
            snd (record_processor_response Paypal_NAME (refund_to_dict rf) (refund_id rf)
                   (Some (order_basket ord)) s))"
  using assms
  by (simp add: Paypal_issue_credit_def Paypal_issue_credit_try_def
        record_processor_response_def)

lemma Paypal_issue_credit_raises:
  assumes "found = Raises
           \<or> (\<exists>p. found = Returns p \<and> get_payment_sale p = None)
           \<or> (\<exists>p sl. found = Returns p \<and> get_payment_sale p = Some sl
                   \<and> sale_refund sl = Raises)"
  shows "fst (Paypal_issue_credit found ord reference_number amt cur s) = Inl GatewayError"
  using assms
  by (auto simp: Paypal_issue_credit_def Paypal_issue_credit_try_def)

lemma Paypal_issue_credit_unsuccessful:
  assumes "found = Returns p" and "get_payment_sale p = Some sl"
    and "sale_refund sl = Returns rf" and "\<not> refund_success rf"
    and "subscript (refund_error rf) ''debug_id'' = Inr debug_id"
  shows "Paypal_issue_credit found ord reference_number amt cur s =
           (Inl GatewayError,
            snd (record_processor_response Paypal_NAME (refund_error rf) debug_id
                   (Some (order_basket ord)) s))"
  using assms
  by (simp add: Paypal_issue_credit_def Paypal_issue_credit_try_def
        record_processor_response_def)

text \<open>
  Claim C4, as stated: a successful \<open>issue_credit\<close> of every adapter returns the
  transaction id of the refund it initiated. The encrypted-card adapter, on an
  acknowledged cancel-or-refund request whose transaction id \<open>8616\<close> it records, ends
  with \<open>return False\<close>.
\<close>

theorem C4_adyen_returns_False_counterexample:
  "Adyen_issue_credit example_acknowledged example_source 25 ''USD'' example_store =
     (Inr (JBool False),
      example_store
        \<lparr>processor_responses :=
           [\<lparr>response_processor = ''adyen'', transaction_id = JStr ''8616'',
             response = JObj [(''pspReference'', JStr ''8616''),
                              (''response'', JStr ''[cancelOrRefund-received]'')],
             response_basket = Some 7\<rparr>]\<rparr>)
   \<and> fst (Adyen_issue_credit example_acknowledged example_source 25 ''USD'' example_store)
       \<noteq> Inr (JStr ''8616'')"
  by (simp add: Adyen_issue_credit_def Adyen_issue_credit_try_def order_of_def
        example_acknowledged_def example_source_def example_store_def example_order_def
        record_processor_response_def dict_item_def cancelOrRefund_received_def
        Adyen_NAME_def)

text \<open>
  Claim C4, amended. Redirect wallet: when the payment is found, \<open>_get_payment_sale\<close>
  gives a sale and the refund call returns a successful refund, \<open>issue_credit\<close>
  returns the id of that refund, which is the transaction id of the one audit record it
  writes; it raises \<open>GatewayError\<close> when the payment lookup raises, when
  \<open>_get_payment_sale\<close> gives \<open>None\<close>, when the refund call raises, and when the
  refund call returns an unsuccessful refund whose error carries a \<open>debug_id\<close>.
  Encrypted card, for a source with an order and a response whose body is JSON: with an
  OK status and a body that carries a \<open>pspReference\<close> and the acknowledgement as
  \<open>response\<close>, \<open>issue_credit\<close> returns \<open>False\<close>; it raises \<open>GatewayError\<close>
  with a non-OK status, and with an OK status and a body that carries a
  \<open>pspReference\<close> and a \<open>response\<close> field other than the acknowledgement.
\<close>

theorem C4_issue_credit_results:
  "(found = Returns p \<and> get_payment_sale p = Some sl \<and> sale_refund sl = Returns rf
      \<and> refund_success rf \<longrightarrow>
        fst (Paypal_issue_credit found ord reference_number amt cur s) = Inr (refund_id rf)
        \<and> processor_responses
             (snd (Paypal_issue_credit found ord reference_number amt cur s)) =
            processor_responses s @
              [\<lparr>response_processor = Paypal_NAME, transaction_id = refund_id rf,
                response = refund_to_dict rf, response_basket = Some (order_basket ord)\<rparr>])
   \<and> (found = Raises
       \<or> (found = Returns p \<and> get_payment_sale p = None)
       \<or> (found = Returns p \<and> get_payment_sale p = Some sl \<and> sale_refund sl = Raises)
       \<or> (found = Returns p \<and> get_payment_sale p = Some sl \<and> sale_refund sl = Returns rf
           \<and> \<not> refund_success rf
           \<and> subscript (refund_error rf) ''debug_id'' = Inr debug_id) \<longrightarrow>
        fst (Paypal_issue_credit found ord reference_number amt cur s) = Inl GatewayError)
   \<and> (order_of s src = Inr src_order \<and> body http = Some adyen_response
       \<and> status_code http = 200
       \<and> subscript adyen_response ''pspReference'' = Inr tid
       \<and> subscript adyen_response ''response'' = Inr cancelOrRefund_received \<longrightarrow>
        fst (Adyen_issue_credit http src amt cur s) = Inr (JBool False))
   \<and> (order_of s src = Inr src_order \<and> body http = Some adyen_response
       \<and> (status_code http \<noteq> 200
           \<or> (status_code http = 200
               \<and> subscript adyen_response ''pspReference'' = Inr tid
               \<and> subscript adyen_response ''response'' = Inr r
               \<and> r \<noteq> cancelOrRefund_received)) \<longrightarrow>
        fst (Adyen_issue_credit http src amt cur s) = Inl GatewayError)"
proof (intro conjI impI)
  assume "found = Returns p \<and> get_payment_sale p = Some sl \<and> sale_refund sl = Returns rf
      \<and> refund_success rf"
  then have *: "Paypal_issue_credit found ord reference_number amt cur s =
           (Inr (refund_id rf),
            snd (record_processor_response Paypal_NAME (refund_to_dict rf) (refund_id rf)
                   (Some (order_basket ord)) s))"
    by (simp add: Paypal_issue_credit_success)
  show "fst (Paypal_issue_credit found ord reference_number amt cur s) = Inr (refund_id rf)"
    using * by simp
  show "processor_responses
             (snd (Paypal_issue_credit found ord reference_number amt cur s)) =
            processor_responses s @
              [\<lparr>response_processor = Paypal_NAME, transaction_id = refund_id rf,
                response = refund_to_dict rf, response_basket = Some (order_basket ord)\<rparr>]"
    using * by (simp add: processor_responses_record)
next
  assume "found = Raises
       \<or> (found = Returns p \<and> get_payment_sale p = None)
       \<or> (found = Returns p \<and> get_payment_sale p = Some sl \<and> sale_refund sl = Raises)
       \<or> (found = Returns p \<and> get_payment_sale p = Some sl \<and> sale_refund sl = Returns rf
           \<and> \<not> refund_success rf
           \<and> subscript (refund_error rf) ''debug_id'' = Inr debug_id)"
  then show "fst (Paypal_issue_credit found ord reference_number amt cur s) = Inl GatewayError"
    using Paypal_issue_credit_raises [of found ord reference_number amt cur s]
          Paypal_issue_credit_unsuccessful [of found p sl rf debug_id ord reference_number amt cur s]
    by auto
next
  assume "order_of s src = Inr src_order \<and> body http = Some adyen_response
       \<and> status_code http = 200
       \<and> subscript adyen_response ''pspReference'' = Inr tid
       \<and> subscript adyen_response ''response'' = Inr cancelOrRefund_received"
  then show "fst (Adyen_issue_credit http src amt cur s) = Inr (JBool False)"
    by (simp add: Adyen_issue_credit_acknowledged)
next
  assume "order_of s src = Inr src_order \<and> body http = Some adyen_response
       \<and> (status_code http \<noteq> 200
           \<or> (status_code http = 200
               \<and> subscript adyen_response ''pspReference'' = Inr tid
               \<and> subscript adyen_response ''response'' = Inr r
               \<and> r \<noteq> cancelOrRefund_received))"
  then show "fst (Adyen_issue_credit http src amt cur s) = Inl GatewayError"
    using Adyen_issue_credit_not_ok [of s src src_order http adyen_response amt cur]
          Adyen_issue_credit_not_acknowledged [of s src src_order http adyen_response tid r amt cur]
    by (cases "status_code http = 200") auto
qed


lemma get_payment_sale_example:
  "get_payment_sale (example_sold_payment rf) = Some (example_sale rf)"
  by (simp add: get_payment_sale_def example_sold_payment_def)

lemma get_payment_sale_unsold:
  "get_payment_sale (example_unsold_payment rf) = None"
  by (simp add: get_payment_sale_def example_unsold_payment_def)

theorem C4_issue_credit_results_witness:
  "get_payment_sale (example_sold_payment example_paypal_refund)
     = Some (example_sale example_paypal_refund)
   \<and> refund_success example_paypal_refund
   \<and> Paypal_issue_credit (Returns (example_sold_payment example_paypal_refund))
        example_order (JStr ''PAY-1'') 25 ''USD'' example_store
      = (Inr (JStr ''REF-1''),
         example_store
           \<lparr>processor_responses :=
              [\<lparr>response_processor = ''paypal'', transaction_id = JStr ''REF-1'',
                response = JObj [(''id'', JStr ''REF-1'')], response_basket = Some 7\<rparr>]\<rparr>)
   \<and> \<not> refund_success example_failed_refund
   \<and> subscript (refund_error example_failed_refund) ''debug_id'' = Inr (JStr ''dbg-9'')
   \<and> fst (Paypal_issue_credit (Returns (example_sold_payment example_failed_refund))
             example_order (JStr ''PAY-1'') 25 ''USD'' example_store) = Inl GatewayError
   \<and> get_payment_sale (example_unsold_payment example_paypal_refund) = None
   \<and> fst (Paypal_issue_credit (Returns (example_unsold_payment example_paypal_refund))
             example_order (JStr ''PAY-2'') 25 ''USD'' example_store) = Inl GatewayError
   \<and> order_of example_store example_source = Inr example_order
   \<and> fst (Adyen_issue_credit example_acknowledged example_source 25 ''USD'' example_store)
       = Inr (JBool False)
   \<and> status_code example_server_error \<noteq> 200
   \<and> fst (Adyen_issue_credit example_server_error example_source 25 ''USD'' example_store)
       = Inl GatewayError"
proof -
  have ok: "refund_success example_paypal_refund"
    by (simp add: example_paypal_refund_def)
  have nok: "\<not> refund_success example_failed_refund"
    by (simp add: example_failed_refund_def)
  have dbg: "subscript (refund_error example_failed_refund) ''debug_id'' = Inr (JStr ''dbg-9'')"
    by (simp add: example_failed_refund_def dict_item_def)
  have sr: "\<And>rf. sale_refund (example_sale rf) = Returns rf"
    by (simp add: example_sale_def)
  have st: "status_code example_server_error \<noteq> 200"
    by (simp add: example_server_error_def)
  note a = C4_issue_credit_results [of "Returns (example_sold_payment example_paypal_refund)"
                  "example_sold_payment example_paypal_refund"
                  "example_sale example_paypal_refund" example_paypal_refund
                  example_order "JStr ''PAY-1''" 25 "''USD''" example_store
                  "JStr ''dbg-9''" example_source example_order example_acknowledged
                  "JObj [(''pspReference'', JStr ''8616''),
                         (''response'', JStr ''[cancelOrRefund-received]'')]"
                  "JStr ''8616''" "JStr ''x''"]
  note b = C4_issue_credit_results [of "Returns (example_sold_payment example_failed_refund)"
                  "example_sold_payment example_failed_refund"
                  "example_sale example_failed_refund" example_failed_refund
                  example_order "JStr ''PAY-1''" 25 "''USD''" example_store
                  "JStr ''dbg-9''" example_source example_order example_server_error
                  "JObj [(''status'', JNum 500)]" "JStr ''8616''" "JStr ''x''"]
  have r1: "Paypal_issue_credit (Returns (example_sold_payment example_paypal_refund))
        example_order (JStr ''PAY-1'') 25 ''USD'' example_store
      = (Inr (JStr ''REF-1''),
         example_store
           \<lparr>processor_responses :=
              [\<lparr>response_processor = ''paypal'', transaction_id = JStr ''REF-1'',
                response = JObj [(''id'', JStr ''REF-1'')], response_basket = Some 7\<rparr>]\<rparr>)"
    unfolding Paypal_issue_credit_success [OF refl get_payment_sale_example sr ok]
    by (simp add: record_processor_response_def example_paypal_refund_def example_store_def
          example_order_def Paypal_NAME_def)
  have r2: "fst (Paypal_issue_credit (Returns (example_sold_payment example_failed_refund))
             example_order (JStr ''PAY-1'') 25 ''USD'' example_store) = Inl GatewayError"
    using b get_payment_sale_example sr nok dbg by simp
  note c = C4_issue_credit_results
             [of "Returns (example_unsold_payment example_paypal_refund)"
                 "example_unsold_payment example_paypal_refund"
                 "example_sale example_paypal_refund" example_paypal_refund
                 example_order "JStr ''PAY-2''" 25 "''USD''" example_store
                 "JStr ''dbg-9''" example_source example_order example_server_error
                 "JObj [(''status'', JNum 500)]" "JStr ''8616''" "JStr ''x''"]
  have r5: "fst (Paypal_issue_credit (Returns (example_unsold_payment example_paypal_refund))
             example_order (JStr ''PAY-2'') 25 ''USD'' example_store) = Inl GatewayError"
    using c get_payment_sale_unsold by simp
  have r3: "fst (Adyen_issue_credit example_acknowledged example_source 25 ''USD'' example_store)
       = Inr (JBool False)"
    using a order_of_example
    by (simp add: example_acknowledged_def dict_item_def cancelOrRefund_received_def)
  have r4: "fst (Adyen_issue_credit example_server_error example_source 25 ''USD'' example_store)
       = Inl GatewayError"
    using b order_of_example st by (simp add: example_server_error_def)
  show ?thesis
    using get_payment_sale_example get_payment_sale_unsold ok nok dbg order_of_example st
          r1 r2 r3 r4 r5
    by simp
qed

section \<open>Redirect-wallet adapter: creating a payment\<close>

lemma upto_1_3: "[1..(3::int)] = [1, 2, 3]"
  by (simp add: upto.simps)

text \<open>
  Claim C9: with the retry switch active and a configured retry count of 0, the range of
  attempt numbers is empty, so no create attempt is made whatever the SDK would answer,
  and \<open>get_transaction_parameters\<close> fails with \<open>UnboundLocalError\<close> when it reads
  \<open>payment\<close> after the loop; it does not raise \<open>GatewayError\<close>, returns no
  parameters, and leaves the store as it was.
\<close>

theorem C9_zero_retry_attempts_unbound_payment:
  assumes "retry_switch self" and "retry_attempts self = 0"
  shows "[1..retry_attempts self] = []
         \<and> Paypal_get_transaction_parameters self sdk b s = (Inl UnboundLocalError, s)
         \<and> fst (Paypal_get_transaction_parameters self sdk b s) \<noteq> Inl GatewayError"
  using assms by (simp add: Paypal_get_transaction_parameters_def)

theorem C9_zero_retry_attempts_unbound_payment_witness:
  "retry_switch \<lparr>retry_attempts = 0, retry_switch = True\<rparr>
   \<and> retry_attempts \<lparr>retry_attempts = 0, retry_switch = True\<rparr> = 0
   \<and> Paypal_get_transaction_parameters \<lparr>retry_attempts = 0, retry_switch = True\<rparr>
        (\<lambda>i. Returns example_created_payment) example_basket empty_store
      = (Inl UnboundLocalError, empty_store)"
  using C9_zero_retry_attempts_unbound_payment [of "\<lparr>retry_attempts = 0, retry_switch = True\<rparr>"
               "\<lambda>i. Returns example_created_payment" example_basket empty_store]
  by simp

text \<open>
  Claim C3, as stated: with a retry count of 3, the switch active, two unsuccessful
  attempts and a successful third, exactly 3 audit records are written. The create flow
  only logs a warning for an unsuccessful attempt that is not the last; the single audit
  record is the one of the created payment.
\<close>

theorem C3_one_audit_record_counterexample:
  "Paypal_get_transaction_parameters \<lparr>retry_attempts = 3, retry_switch = True\<rparr>
     example_third_attempt_creates example_basket empty_store
   = (Inr [(''payment_page_url'', JStr ''https://approve.example/PAY-3'')],
      empty_store
        \<lparr>processor_responses :=
           [\<lparr>response_processor = ''paypal'', transaction_id = JStr ''PAY-3'',
             response = JObj [(''id'', JStr ''PAY-3'')], response_basket = Some 7\<rparr>],
         log_records := [WARNING, WARNING, INFO]\<rparr>)
   \<and> length (processor_responses (snd
        (Paypal_get_transaction_parameters \<lparr>retry_attempts = 3, retry_switch = True\<rparr>
           example_third_attempt_creates example_basket empty_store))) \<noteq> 3"
  by (simp add: Paypal_get_transaction_parameters_def upto_1_3 example_created_payment_def
        example_failed_payment_def record_processor_response_def logger_def dict_set_def
        empty_store_def example_basket_def Paypal_NAME_def
        example_third_attempt_creates_def)

text \<open>
  Claim C3, amended: with a retry count of 3, the switch active, two unsuccessful
  attempts and a successful third whose link list has an approval link, exactly one audit
  record is written, for the payment of the third attempt and after two logged warnings,
  and the returned parameters hold the \<open>href\<close> of the first approval link of the third
  attempt's link list.
\<close>

theorem C3_third_attempt_succeeds:
  assumes "retry_switch self" and "retry_attempts self = 3"
    and "sdk 1 = Returns p1" and "\<not> payment_success p1"
    and "sdk 2 = Returns p2" and "\<not> payment_success p2"
    and "sdk 3 = Returns p3" and "payment_success p3"
    and "find (\<lambda>l. rel l = ''approval_url'') (payment_links p3) = Some approval"
  shows "Paypal_get_transaction_parameters self sdk b s =
           (Inr [(''payment_page_url'', JStr (href approval))],
            logger INFO
              (snd (record_processor_response Paypal_NAME (payment_to_dict p3) (payment_id p3)
                      (Some (basket_id b)) (logger WARNING (logger WARNING s)))))
         \<and> processor_responses (snd (Paypal_get_transaction_parameters self sdk b s)) =
             processor_responses s @
               [\<lparr>response_processor = Paypal_NAME, transaction_id = payment_id p3,
                 response = payment_to_dict p3, response_basket = Some (basket_id b)\<rparr>]
         \<and> length (processor_responses (snd (Paypal_get_transaction_parameters self sdk b s)))
             = length (processor_responses s) + 1"
proof -
  have loop: "create_attempts sdk b 3 [1, 2, 3] None s
                = (Inr (Some p3), logger WARNING (logger WARNING s))"
    using assms(3-8) by simp
  have res: "Paypal_get_transaction_parameters self sdk b s =
           (Inr [(''payment_page_url'', JStr (href approval))],
            logger INFO
              (snd (record_processor_response Paypal_NAME (payment_to_dict p3) (payment_id p3)
                      (Some (basket_id b)) (logger WARNING (logger WARNING s)))))"
    using assms(1,2,9) loop
    by (simp add: Paypal_get_transaction_parameters_def upto_1_3 dict_set_def
          record_processor_response_def)
  show ?thesis
    unfolding res by (simp add: processor_responses_record)
qed

theorem C3_third_attempt_succeeds_witness:
  "\<not> payment_success example_failed_payment
   \<and> payment_success example_created_payment
   \<and> find (\<lambda>l. rel l = ''approval_url'') (payment_links example_created_payment)
       = Some \<lparr>rel = ''approval_url'', href = ''https://approve.example/PAY-3''\<rparr>
   \<and> Paypal_get_transaction_parameters \<lparr>retry_attempts = 3, retry_switch = True\<rparr>
        example_third_attempt_creates
        example_basket empty_store
      = (Inr [(''payment_page_url'', JStr ''https://approve.example/PAY-3'')],
         empty_store
           \<lparr>processor_responses :=
              [\<lparr>response_processor = ''paypal'', transaction_id = JStr ''PAY-3'',
                response = JObj [(''id'', JStr ''PAY-3'')], response_basket = Some 7\<rparr>],
            log_records := [WARNING, WARNING, INFO]\<rparr>)"
proof -
  have f: "\<not> payment_success example_failed_payment"
    by (simp add: example_failed_payment_def)
  have c: "payment_success example_created_payment"
    by (simp add: example_created_payment_def)
  have l: "find (\<lambda>l. rel l = ''approval_url'') (payment_links example_created_payment)
       = Some \<lparr>rel = ''approval_url'', href = ''https://approve.example/PAY-3''\<rparr>"
    by (simp add: example_created_payment_def)
  note w = C3_third_attempt_succeeds [of "\<lparr>retry_attempts = 3, retry_switch = True\<rparr>"
                  example_third_attempt_creates
                  example_failed_payment example_failed_payment example_created_payment
                  "\<lparr>rel = ''approval_url'', href = ''https://approve.example/PAY-3''\<rparr>"
                  example_basket empty_store, OF _ _ _ f _ f _ c l]
  have "Paypal_get_transaction_parameters \<lparr>retry_attempts = 3, retry_switch = True\<rparr>
        example_third_attempt_creates
        example_basket empty_store
      = (Inr [(''payment_page_url'', JStr ''https://approve.example/PAY-3'')],
         empty_store
           \<lparr>processor_responses :=
              [\<lparr>response_processor = ''paypal'', transaction_id = JStr ''PAY-3'',
                response = JObj [(''id'', JStr ''PAY-3'')], response_basket = Some 7\<rparr>],
            log_records := [WARNING, WARNING, INFO]\<rparr>)"
    using w
    by (simp add: record_processor_response_def logger_def example_created_payment_def
          empty_store_def example_basket_def Paypal_NAME_def
          example_third_attempt_creates_def)
  then show ?thesis using f c l by simp
qed

section \<open>Audit records on failing gateway interactions\<close>

lemma processor_responses_get_or_create_source_type [simp]:
  "processor_responses (get_or_create_source_type name s) = processor_responses s"
  by (simp add: get_or_create_source_type_def)

lemma processor_responses_get_or_create_event_type [simp]:
  "processor_responses (get_or_create_event_type name s) = processor_responses s"
  by (simp add: get_or_create_event_type_def)

lemma processor_responses_ledger_updates [simp]:
  "processor_responses (source_refund sid amt ref s) = processor_responses s"
  "processor_responses (refund_set_status rid st s) = processor_responses s"
  "processor_responses (refund_complete rid rv s) = processor_responses s"
  "processor_responses (create_payment_event ev s) = processor_responses s"
  by (simp_all add: source_refund_def refund_set_status_def refund_complete_def
        create_payment_event_def)















end
